theory Spec2Isabelle
  imports Complex_Main "HOL-Library.Sublist"
begin

section \<open>Waste heat reuse calculator: the computation pipeline of the page\<close>

text \<open>
  The calculator is one React component, \<^verbatim>\<open>Page\<close>, whose state is a set of
  \<^verbatim>\<open>useState\<close> cells and whose derived values are \<^verbatim>\<open>useMemo\<close> blocks over
  that state. The state is the record \<open>inputs\<close>; each \<^verbatim>\<open>useMemo\<close> block is a
  function of it, named as in the source. The source also keeps an earlier, shorter
  version of the page; the definitions follow the current one, which has the
  ownership models.

  Numbers: a JavaScript \<^verbatim>\<open>number\<close> is modelled as a \<open>real\<close>, so rounding of
  IEEE doubles is left out. Where the source divides by a value that can be zero
  without a guard (the payback periods), the quotient is a \<open>jsnum\<close>, which has the
  non-finite results of IEEE division. A string is the list of its bytes in UTF-8.
\<close>

subsection \<open>Types and constants\<close>

datatype Offtake =
    hotWater
  | districtHeat
  | waterTreatmentFO
  | atmosphericWater
  | greenhouses
  | foodBrewery
  | dac

record Range =
  range_min :: real
  range_max :: real

definition MWH_PER_MW_YEAR :: real where
  "MWH_PER_MW_YEAR = 8760"

definition L_PER_M3 :: real where
  "L_PER_M3 = 1000"

definition GAL_TO_M3 :: real where
  "GAL_TO_M3 = 0.00378541"

definition DAC_TCO2_PER_MW_YEAR :: real where
  "DAC_TCO2_PER_MW_YEAR = 4550"

definition DAC_WATER_M3_PER_MW_YEAR :: real where
  "DAC_WATER_M3_PER_MW_YEAR = 160"

definition DAC_RELEASE_TEMP_C :: real where
  "DAC_RELEASE_TEMP_C = 65"

definition TREVI_L_PER_MW_YEAR_RANGE :: Range where
  "TREVI_L_PER_MW_YEAR_RANGE = \<lparr> range_min = 255000000, range_max = 365000000 \<rparr>"

definition TREVI_M3_PER_MW_YEAR_MID :: real where
  "TREVI_M3_PER_MW_YEAR_MID =
     (range_min TREVI_L_PER_MW_YEAR_RANGE + range_max TREVI_L_PER_MW_YEAR_RANGE) / 2 / L_PER_M3"

definition URAVU_L_PER_MW_YEAR_RANGE :: Range where
  "URAVU_L_PER_MW_YEAR_RANGE = \<lparr> range_min = 2000000, range_max = 15000000 \<rparr>"

definition URAVU_M3_PER_MW_YEAR_MID :: real where
  "URAVU_M3_PER_MW_YEAR_MID =
     (range_min URAVU_L_PER_MW_YEAR_RANGE + range_max URAVU_L_PER_MW_YEAR_RANGE) / 2 / L_PER_M3"

definition GREENHOUSE_MWH_PER_HA_YEAR_DEFAULT :: real where
  "GREENHOUSE_MWH_PER_HA_YEAR_DEFAULT = 4500"

definition DEFAULT_MWH_PER_HOME_YEAR :: real where
  "DEFAULT_MWH_PER_HOME_YEAR = 14.5"

text \<open>CO2 abatement ranges by offtake (kt CO2 equivalent per MW year).\<close>

definition DAC_CO2_KT_RANGE :: Range where
  "DAC_CO2_KT_RANGE = \<lparr> range_min = 4.0, range_max = 5.0 \<rparr>"

definition FO_CO2_KT_RANGE :: Range where
  "FO_CO2_KT_RANGE = \<lparr> range_min = 0.5, range_max = 1.5 \<rparr>"

definition FNB_CO2_KT_RANGE :: Range where
  "FNB_CO2_KT_RANGE = \<lparr> range_min = 0.3, range_max = 0.8 \<rparr>"

definition AWH_CO2_KT_RANGE :: Range where
  "AWH_CO2_KT_RANGE = \<lparr> range_min = 0.1, range_max = 0.3 \<rparr>"

definition GREENHOUSE_CO2_KT_PER_MWYR_RANGE :: Range where
  "GREENHOUSE_CO2_KT_PER_MWYR_RANGE = \<lparr> range_min = 0.2, range_max = 0.6 \<rparr>"

definition DISTRICT_HEAT_CO2_KT_RANGE :: Range where
  "DISTRICT_HEAT_CO2_KT_RANGE = \<lparr> range_min = 0.1, range_max = 0.5 \<rparr>"

subsection \<open>Helpers\<close>

text \<open>\<^verbatim>\<open>clamp(n, min, max) = Math.min(max, Math.max(min, n))\<close>\<close>

definition clamp :: "real \<Rightarrow> real \<Rightarrow> real \<Rightarrow> real" where
  "clamp n lo hi = min hi (max lo n)"

text \<open>
  \<^verbatim>\<open>ramp(tempC, t0, t1, v0, v1)\<close>: the two early returns, then the interpolation.
  The divisor \<open>t1 - t0\<close> is zero only when \<open>t0 = t1\<close>, and then one of the two
  early returns is taken.
\<close>

definition ramp :: "real \<Rightarrow> real \<Rightarrow> real \<Rightarrow> real \<Rightarrow> real \<Rightarrow> real" where
  "ramp tempC t0 t1 v0 v1 =
     (if tempC \<le> t0 then v0
      else if tempC \<ge> t1 then v1
      else (let f = (tempC - t0) / (t1 - t0) in v0 + f * (v1 - v0)))"

subsection \<open>The state of the page\<close>

record inputs =
  offtake :: Offtake
  itLoadMW :: real
  recoveryPct :: real
  hoursPerYear :: real
  dcReturnTempC :: real
  mwhPerHomeYear :: real
  phxGpcd :: real
  intakeDistanceKm :: real
  country :: string
  dcConfig :: string
  erfPercent :: real
  dacMarketPrice :: real
  dacProcurementPrice :: real
  waterMarketPrice :: real
  waterProductionCost :: real
  thermalEnergyPrice :: real
  electricityCost :: real
  coolingCOP :: real
  whrCapitalCostPerMW :: real
  tippingFeePerMWh :: real
  revenueSharePercent :: real

text \<open>The initial values of the \<^verbatim>\<open>useState\<close> cells (284 is Frankfurt's electricity cost).\<close>

definition initialInputs :: inputs where
  "initialInputs =
     \<lparr> offtake = dac, itLoadMW = 200, recoveryPct = 10, hoursPerYear = 8760,
       dcReturnTempC = 27, mwhPerHomeYear = DEFAULT_MWH_PER_HOME_YEAR, phxGpcd = 125,
       intakeDistanceKm = 0.5, country = ''European average'', dcConfig = ''Ballard'',
       erfPercent = 10, dacMarketPrice = 200, dacProcurementPrice = 150,
       waterMarketPrice = 4.5, waterProductionCost = 3.5, thermalEnergyPrice = 75,
       electricityCost = 284, coolingCOP = 3.3, whrCapitalCostPerMW = 0.25,
       tippingFeePerMWh = 10, revenueSharePercent = 30 \<rparr>"

subsection \<open>Thermal core\<close>

definition dcSupplyTempC :: "inputs \<Rightarrow> real" where
  "dcSupplyTempC inp = dcReturnTempC inp - 12"

record core_out =
  recoverableHeatMW :: real
  annualHeatMWh :: real
  effectiveMWyr :: real
  dcDeltaT :: real

definition core :: "inputs \<Rightarrow> core_out" where
  "core inp =
     (let recFrac = clamp (recoveryPct inp) 0 100 / 100;
          recoverableHeatMW = itLoadMW inp * recFrac;
          annualHeatMWh = recoverableHeatMW * hoursPerYear inp;
          effectiveMWyr = recoverableHeatMW * (hoursPerYear inp / 8760);
          dcDeltaT = max 1 (dcReturnTempC inp - dcSupplyTempC inp)
      in \<lparr> recoverableHeatMW = recoverableHeatMW, annualHeatMWh = annualHeatMWh,
           effectiveMWyr = effectiveMWyr, dcDeltaT = dcDeltaT \<rparr>)"

subsection \<open>Performance factors and offtake outputs\<close>

record perf_out =
  uravuFactor :: real
  treviFactor :: real
  dacFactor :: real
  greenhouseFactor :: real

definition perf :: "inputs \<Rightarrow> perf_out" where
  "perf inp =
     \<lparr> uravuFactor = ramp (dcReturnTempC inp) 30 55 0.75 1.0,
       treviFactor = ramp (dcReturnTempC inp) 30 45 0.85 1.0,
       dacFactor = ramp (dcReturnTempC inp) 30 DAC_RELEASE_TEMP_C 0.5 1.0,
       greenhouseFactor = ramp (dcReturnTempC inp) 30 60 0.9 1.0 \<rparr>"

definition phxM3PerPersonYear :: "inputs \<Rightarrow> real" where
  "phxM3PerPersonYear inp = phxGpcd inp * GAL_TO_M3 * 365"

record outputs_out =
  treviM3PerYear :: real
  uravuM3PerYear :: real
  greenhouseHa :: real
  homesHeated :: real
  dacTco2PerYear :: real
  dacWaterM3PerYear :: real
  treviPeoplePerYear :: real
  uravuPeoplePerYear :: real
  dacPeoplePerYear :: real

definition outputs :: "inputs \<Rightarrow> outputs_out" where
  "outputs inp =
     (let mw = recoverableHeatMW (core inp);
          treviM3PerYear = mw * TREVI_M3_PER_MW_YEAR_MID * treviFactor (perf inp);
          uravuM3PerYear = mw * URAVU_M3_PER_MW_YEAR_MID * uravuFactor (perf inp);
          homesHeated = (if mwhPerHomeYear inp > 0
                         then annualHeatMWh (core inp) / mwhPerHomeYear inp else 0);
          greenhouseHa = (annualHeatMWh (core inp) / GREENHOUSE_MWH_PER_HA_YEAR_DEFAULT)
                           * greenhouseFactor (perf inp);
          dacTco2PerYear = effectiveMWyr (core inp) * DAC_TCO2_PER_MW_YEAR * dacFactor (perf inp);
          dacWaterM3PerYear = effectiveMWyr (core inp) * DAC_WATER_M3_PER_MW_YEAR;
          treviPeoplePerYear = (if phxM3PerPersonYear inp > 0
                                then treviM3PerYear / phxM3PerPersonYear inp else 0);
          uravuPeoplePerYear = (if phxM3PerPersonYear inp > 0
                                then uravuM3PerYear / phxM3PerPersonYear inp else 0);
          dacPeoplePerYear = (if phxM3PerPersonYear inp > 0
                              then dacWaterM3PerYear / phxM3PerPersonYear inp else 0)
      in \<lparr> treviM3PerYear = treviM3PerYear, uravuM3PerYear = uravuM3PerYear,
           greenhouseHa = greenhouseHa, homesHeated = homesHeated,
           dacTco2PerYear = dacTco2PerYear, dacWaterM3PerYear = dacWaterM3PerYear,
           treviPeoplePerYear = treviPeoplePerYear, uravuPeoplePerYear = uravuPeoplePerYear,
           dacPeoplePerYear = dacPeoplePerYear \<rparr>)"

subsection \<open>Data-centre savings: PUE, WUE, ERE\<close>

record Facility =
  location :: string
  coolingType :: string
  ambientTempC :: real
  electricityCostPerMWh :: real
  pueBaseline :: real
  pueMaxImprovement :: real
  wueBaseline :: real
  wueWithHR :: real
  scenarioMatch :: string
  whrFriendliness :: string

text \<open>
  \<^verbatim>\<open>FACILITIES\<close> is an object indexed by the facility's name; a name that is not a
  key gives \<^verbatim>\<open>undefined\<close>, here \<open>None\<close>.
\<close>

definition FACILITIES :: "string \<Rightarrow> Facility option" where
  "FACILITIES name =
     (if name = ''Ballard'' then
        Some \<lparr> location = ''Quincy, WA'', coolingType = ''Direct evaporative air'',
               ambientTempC = 10, electricityCostPerMWh = 60, pueBaseline = 1.59,
               pueMaxImprovement = 0.06, wueBaseline = 0.359, wueWithHR = 0,
               scenarioMatch = ''air cooled'',
               whrFriendliness = ''Low (air exhaust, low grade)'' \<rparr>
      else if name = ''Osgood'' then
        Some \<lparr> location = ''Chicago, IL'', coolingType = ''Indirect evap + mech backup'',
               ambientTempC = 13, electricityCostPerMWh = 80, pueBaseline = 1.65,
               pueMaxImprovement = 0.09, wueBaseline = 0.45, wueWithHR = 0.35,
               scenarioMatch = ''hybrid'', whrFriendliness = ''Medium'' \<rparr>
      else if name = ''Fremont/Fairwater'' then
        Some \<lparr> location = ''Northern CA'',
               coolingType = ''Air-cooled chillers, closed-loop FW'',
               ambientTempC = 15, electricityCostPerMWh = 115, pueBaseline = 1.72,
               pueMaxImprovement = 0.04, wueBaseline = 0, wueWithHR = 0,
               scenarioMatch = ''air cooled'', whrFriendliness = ''High'' \<rparr>
      else None)"

text \<open>
  \<^verbatim>\<open>s.includes(t)\<close>: \<open>t\<close> occurs in \<open>s\<close> as a contiguous substring
  (\<open>includes\<close> is a keyword of Isabelle, hence the name).
\<close>

definition includesStr :: "string \<Rightarrow> string \<Rightarrow> bool" where
  "includesStr s t = sublist t s"

text \<open>
  The object that \<^verbatim>\<open>dcSavings\<close> returns. Fields typed \<^verbatim>\<open>number | null\<close> are
  options, \<open>None\<close> being \<^verbatim>\<open>null\<close>. Several of its keys are also keys of a
  facility; from here on the facility's are written \<open>Facility.pueBaseline\<close> and so on.
\<close>

record dcSavings_out =
  pueBaseline :: "real option"
  pueWithHR :: "real option"
  pueReduction :: "real option"
  wueBaseline :: "real option"
  wueWithHR :: "real option"
  wueReduction :: "real option"
  erf :: real
  ere :: "real option"
  annualOperationalSavings :: real
  configName :: "string option"

definition tempAdjustmentFactor :: "inputs \<Rightarrow> real" where
  "tempAdjustmentFactor inp = max 0.85 (1 - (dcReturnTempC inp - 25) / 100)"

text \<open>
  The body of \<^verbatim>\<open>dcSavings\<close>, given the result of the lookup
  \<^verbatim>\<open>FACILITIES[dcConfig]\<close>. The guard \<^verbatim>\<open>pueBaseline ? .. : null\<close> is the
  truthiness of a number, that is, being non-zero. The factor \<^verbatim>\<open>1 / coolingCOP\<close>
  is unguarded in the source; the model is that of the source for a non-zero
  \<open>coolingCOP\<close> (its slider runs from 2 to 5).
\<close>

definition dcSavingsFor :: "Facility option \<Rightarrow> inputs \<Rightarrow> dcSavings_out" where
  "dcSavingsFor fac inp =
     (let erf = erfPercent inp / 100 in
      case fac of
        None \<Rightarrow>
          \<lparr> pueBaseline = None, pueWithHR = None, pueReduction = None,
            wueBaseline = None, wueWithHR = None, wueReduction = None,
            erf = erf, ere = None, annualOperationalSavings = 0, configName = None \<rparr>
      | Some facility \<Rightarrow>
         (let pueBaseline = Facility.pueBaseline facility;
              wueBaseline = Facility.wueBaseline facility;
              pueSavingsPercent = pueMaxImprovement facility;
              pueWithHR = (if erf = 0 then pueBaseline
                           else pueBaseline * (1 - pueSavingsPercent * erf * tempAdjustmentFactor inp));
              wueWithHR = (if wueBaseline > 0
                           then (let wueSavingsPercent = 0.15 in
                                 if erf = 0 then wueBaseline
                                 else wueBaseline * (1 - wueSavingsPercent * erf * tempAdjustmentFactor inp))
                           else 0);
              pueReduction = (if pueBaseline \<noteq> 0
                              then Some (((pueBaseline - pueWithHR) / pueBaseline) * 100)
                              else None);
              wueReduction = (if wueBaseline \<noteq> 0 \<and> wueBaseline > 0
                              then Some (((wueBaseline - wueWithHR) / wueBaseline) * 100)
                              else None);
              baseEre = (if includesStr (coolingType facility) ''evaporative''
                            \<or> includesStr (coolingType facility) ''Evaporative'' then 0.78
                         else if includesStr (coolingType facility) ''evap''
                            \<or> includesStr (coolingType facility) ''mech'' then 0.82
                         else 0.75);
              ere = (if erf > 0 then Some (baseEre * erf) else None);
              annualOperationalSavings =
                (if recoverableHeatMW (core inp) > 0
                 then (let coolingEfficiencyFactor = 1 / coolingCOP inp;
                           energySavedMWh = recoverableHeatMW (core inp) * erf * hoursPerYear inp
                                              * coolingEfficiencyFactor
                       in energySavedMWh * electricityCost inp)
                 else 0)
          in \<lparr> pueBaseline = Some pueBaseline, pueWithHR = Some pueWithHR,
               pueReduction = pueReduction, wueBaseline = Some wueBaseline,
               wueWithHR = Some wueWithHR, wueReduction = wueReduction,
               erf = erf, ere = ere, annualOperationalSavings = annualOperationalSavings,
               configName = Some (location facility) \<rparr>))"

definition dcSavings :: "inputs \<Rightarrow> dcSavings_out" where
  "dcSavings inp = dcSavingsFor (FACILITIES (dcConfig inp)) inp"

subsection \<open>Piping cost: the region table and its lookup\<close>

text \<open>
  \<^verbatim>\<open>offData\<close> is the JSON document \<^verbatim>\<open>data/offtaker_costs.json\<close>, which a script
  writes from a spreadsheet; it is a parameter of the model. A cell of a row is a JSON
  scalar. Of a row, the source reads the keys \<^verbatim>\<open>__EMPTY\<close> (the location) and
  \<^verbatim>\<open>__EMPTY_9\<close> (the subsidy); a missing key reads as \<open>CNull\<close>. The document's
  \<^verbatim>\<open>cost_per_km\<close> is used as a number where it is present.
\<close>

datatype cell = CNull | CBool bool | CNum real | CStr string

record row =
  EMPTY :: cell
  EMPTY_9 :: cell

record offData =
  raw_rows :: "row list"
  cost_per_km :: "real option"

text \<open>
  The conversions of the JavaScript runtime between numbers and strings are taken as
  given: \<open>numberToString\<close> is \<^verbatim>\<open>String(x)\<close> on a number, \<open>stringToNumber\<close> is
  \<^verbatim>\<open>Number(s)\<close> on a string, with \<open>None\<close> where the result is \<^verbatim>\<open>NaN\<close> or
  infinite (the only use of the result is under \<^verbatim>\<open>isFinite\<close>), and \<open>lowerCaseOf\<close>
  is \<^verbatim>\<open>s.toLowerCase()\<close> on a string that has a character outside ASCII.
\<close>

record host =
  numberToString :: "real \<Rightarrow> string"
  stringToNumber :: "string \<Rightarrow> real option"
  lowerCaseOf :: "string \<Rightarrow> string"

fun truthy :: "cell \<Rightarrow> bool" where
  "truthy CNull = False"
| "truthy (CBool b) = b"
| "truthy (CNum x) = (x \<noteq> 0)"
| "truthy (CStr s) = (s \<noteq> [])"

fun toStringJS :: "host \<Rightarrow> cell \<Rightarrow> string" where
  "toStringJS h CNull = ''null''"
| "toStringJS h (CBool b) = (if b then ''true'' else ''false'')"
| "toStringJS h (CNum x) = numberToString h x"
| "toStringJS h (CStr s) = s"

fun toNumberJS :: "host \<Rightarrow> cell \<Rightarrow> real option" where
  "toNumberJS h CNull = Some 0"
| "toNumberJS h (CBool b) = Some (if b then 1 else 0)"
| "toNumberJS h (CNum x) = Some x"
| "toNumberJS h (CStr s) = stringToNumber h s"

text \<open>
  \<^verbatim>\<open>toLowerCase\<close>. On a string of ASCII characters it maps the letters A to Z to
  a to z and leaves the other characters; on any other string its result is the
  runtime's, which folds every cased letter of Unicode.
\<close>

definition lowerChar :: "char \<Rightarrow> char" where
  "lowerChar c =
     (case map_of (zip ''ABCDEFGHIJKLMNOPQRSTUVWXYZ'' ''abcdefghijklmnopqrstuvwxyz'') c of
        None \<Rightarrow> c | Some d \<Rightarrow> d)"

definition isAscii :: "char \<Rightarrow> bool" where
  "isAscii c = (of_char c < (128::nat))"

definition toLowerCase :: "host \<Rightarrow> string \<Rightarrow> string" where
  "toLowerCase h s = (if list_all isAscii s then map lowerChar s else lowerCaseOf h s)"

text \<open>\<^verbatim>\<open>String(r.__EMPTY || "").toLowerCase()\<close>\<close>

definition rowLoc :: "host \<Rightarrow> row \<Rightarrow> string" where
  "rowLoc h r = toLowerCase h (if truthy (EMPTY r) then toStringJS h (EMPTY r) else [])"

text \<open>
  \<^verbatim>\<open>findRegionRow\<close> of \<^verbatim>\<open>offtakeCosts\<close>: two loops over the rows, each returning
  the first row that passes its test, then \<^verbatim>\<open>null\<close>.
\<close>

definition findRegionRow :: "host \<Rightarrow> row list \<Rightarrow> string \<Rightarrow> row option" where
  "findRegionRow h rows region =
     (let key = toLowerCase h region in
      case find (\<lambda>r. includesStr (rowLoc h r) key \<or> includesStr key (rowLoc h r)) rows of
        Some r \<Rightarrow> Some r
      | None \<Rightarrow> find (\<lambda>r. includesStr (rowLoc h r) ''european average'') rows)"

text \<open>
  \<^verbatim>\<open>findRegionRow\<close> of \<^verbatim>\<open>offtakeRegionInfo\<close>, the lookup of the same page that
  reads the region's prices for the same \<open>country\<close>: its first loop tests
  \<^verbatim>\<open>loc.includes(key)\<close> alone.
\<close>

definition findRegionRowInfo :: "host \<Rightarrow> row list \<Rightarrow> string \<Rightarrow> row option" where
  "findRegionRowInfo h rows region =
     (let key = toLowerCase h region in
      case find (\<lambda>r. includesStr (rowLoc h r) key) rows of
        Some r \<Rightarrow> Some r
      | None \<Rightarrow> find (\<lambda>r. includesStr (rowLoc h r) ''european average'') rows)"

text \<open>
  \<^verbatim>\<open>row && row.__EMPTY_9 ? Number(row.__EMPTY_9) : 0\<close>, followed by
  \<^verbatim>\<open>isFinite(subsidy) ? subsidy : 0\<close>.
\<close>

definition subsidyOf :: "host \<Rightarrow> row option \<Rightarrow> real" where
  "subsidyOf h rw =
     (let subsidy = (case rw of
                       None \<Rightarrow> Some 0
                     | Some r \<Rightarrow> if truthy (EMPTY_9 r) then toNumberJS h (EMPTY_9 r) else Some 0)
      in case subsidy of Some x \<Rightarrow> x | None \<Rightarrow> 0)"

record offtakeCosts_out =
  totalCapex :: real
  annualOpex :: real
  pipingLengthKm :: real
  sourceRow :: "row option"

text \<open>\<^verbatim>\<open>cost_per_km || 10000\<close>: a missing value and the number 0 both give 10000.\<close>

definition distanceCostPerMWperKm :: "offData \<Rightarrow> real" where
  "distanceCostPerMWperKm od =
     (case cost_per_km od of None \<Rightarrow> 10000 | Some c \<Rightarrow> if c \<noteq> 0 then c else 10000)"

definition offtakeCosts :: "host \<Rightarrow> offData \<Rightarrow> inputs \<Rightarrow> offtakeCosts_out" where
  "offtakeCosts h od inp =
     (let rows = raw_rows od;
          rw = findRegionRow h rows (country inp);
          subsidy = subsidyOf h rw;
          baseCapexPerMW = 200000 * (1 - subsidy);
          totalCapex = (baseCapexPerMW + distanceCostPerMWperKm od * intakeDistanceKm inp)
                         * recoverableHeatMW (core inp);
          annualOpex = totalCapex * 0.03
      in \<lparr> totalCapex = totalCapex, annualOpex = annualOpex,
           pipingLengthKm = intakeDistanceKm inp, sourceRow = rw \<rparr>)"

subsection \<open>CO2 comparison\<close>

record BarDatum =
  label :: string
  best :: real
  bar_min :: real
  bar_max :: real

definition mk :: "string \<Rightarrow> Range \<Rightarrow> BarDatum" where
  "mk lbl r = \<lparr> label = lbl, best = (range_min r + range_max r) / 2,
                bar_min = range_min r, bar_max = range_max r \<rparr>"

text \<open>\<^verbatim>\<open>co2Bars\<close> is a \<^verbatim>\<open>useMemo\<close> with an empty dependency list.\<close>

definition co2Bars :: "inputs \<Rightarrow> BarDatum list" where
  "co2Bars inp =
     [ mk ''Direct Air Capture (DAC)'' DAC_CO2_KT_RANGE,
       mk ''FO Waste Water Treatment'' FO_CO2_KT_RANGE,
       mk ''Food & Beverage (EU)'' FNB_CO2_KT_RANGE,
       mk ''Atmospheric Water Capture'' AWH_CO2_KT_RANGE,
       mk ''Greenhouses & Agriculture'' GREENHOUSE_CO2_KT_PER_MWYR_RANGE,
       mk ''District Heating (proxy)'' DISTRICT_HEAT_CO2_KT_RANGE ]"

text \<open>
  \<^verbatim>\<open>potentialCO2\<close> returns an object of kind \<^verbatim>\<open>"dac"\<close> or \<^verbatim>\<open>"range"\<close>, or
  \<^verbatim>\<open>null\<close> in the default case of its switch. \<open>rangeTimes\<close> is the object that
  the five range cases build, each from its own range; \<^verbatim>\<open>dacTco2PerYear || 0\<close> is
  \<open>dacTco2PerYear\<close> on the reals.
\<close>

datatype potential = KindDac (tco2: real) | KindRange (minKt: real) (midKt: real) (maxKt: real)

definition rangeTimes :: "Range \<Rightarrow> real \<Rightarrow> potential" where
  "rangeTimes r mw =
     KindRange (range_min r * mw) (((range_min r + range_max r) / 2) * mw) (range_max r * mw)"

definition potentialCO2 :: "inputs \<Rightarrow> potential option" where
  "potentialCO2 inp =
     (let mw = recoverableHeatMW (core inp) in
      case offtake inp of
        dac \<Rightarrow> Some (KindDac (dacTco2PerYear (outputs inp)))
      | waterTreatmentFO \<Rightarrow> Some (rangeTimes FO_CO2_KT_RANGE mw)
      | foodBrewery \<Rightarrow> Some (rangeTimes FNB_CO2_KT_RANGE mw)
      | atmosphericWater \<Rightarrow> Some (rangeTimes AWH_CO2_KT_RANGE mw)
      | greenhouses \<Rightarrow> Some (rangeTimes GREENHOUSE_CO2_KT_PER_MWYR_RANGE mw)
      | districtHeat \<Rightarrow> Some (rangeTimes DISTRICT_HEAT_CO2_KT_RANGE mw)
      | hotWater \<Rightarrow> None)"

subsection \<open>Ownership models\<close>

text \<open>
  The result of a JavaScript division whose divisor may be zero. A non-zero divisor
  gives the quotient; a zero divisor gives \<^verbatim>\<open>NaN\<close> for a zero dividend and an
  infinity otherwise. \<open>Infinite\<close> is \<^verbatim>\<open>Infinity\<close> or \<^verbatim>\<open>-Infinity\<close>: which of the
  two depends on the sign of the zero divisor, and the reals have one zero.
\<close>

datatype jsnum = Num real | Infinite | NaN

definition jsdiv :: "real \<Rightarrow> real \<Rightarrow> jsnum" where
  "jsdiv a b =
     (if b \<noteq> 0 then Num (a / b)
      else if a = 0 then NaN
      else Infinite)"

text \<open>
  \<^verbatim>\<open>OFFTAKE_PLANT_COSTS\<close>; the descriptive strings of its entries
  (\<^verbatim>\<open>unit\<close>, \<^verbatim>\<open>notes\<close>) are only displayed and are left out.
\<close>

record PlantCosts =
  capexM :: real
  opexPerYear :: real

fun OFFTAKE_PLANT_COSTS :: "Offtake \<Rightarrow> PlantCosts" where
  "OFFTAKE_PLANT_COSTS waterTreatmentFO = \<lparr> capexM = 3.06, opexPerYear = 256477 \<rparr>"
| "OFFTAKE_PLANT_COSTS atmosphericWater = \<lparr> capexM = 1.05, opexPerYear = 126000 \<rparr>"
| "OFFTAKE_PLANT_COSTS dac = \<lparr> capexM = 4.0, opexPerYear = 350000 \<rparr>"
| "OFFTAKE_PLANT_COSTS districtHeat = \<lparr> capexM = 0.8, opexPerYear = 80000 \<rparr>"
| "OFFTAKE_PLANT_COSTS greenhouses = \<lparr> capexM = 0.3, opexPerYear = 30000 \<rparr>"
| "OFFTAKE_PLANT_COSTS hotWater = \<lparr> capexM = 0.2, opexPerYear = 20000 \<rparr>"
| "OFFTAKE_PLANT_COSTS foodBrewery = \<lparr> capexM = 6.25, opexPerYear = 1710000 \<rparr>"

text \<open>
  One ownership model of the comparison. \<^verbatim>\<open>thirdPartyProfit\<close> is a key of models
  B and C only. The keys \<open>totalCapex\<close> and \<open>annualOpex\<close> are also keys of the piping
  cost, whose own are written \<open>offtakeCosts_out.totalCapex\<close> from here on.
\<close>

record ownership =
  totalCapex :: real
  annualOpex :: real
  annualRevenue :: real
  annualProfit :: real
  paybackYears :: jsnum
  thirdPartyProfit :: "real option"

record ownershipComparison_out =
  plantCosts :: PlantCosts
  heatExchangerCapex :: real
  pipingCapex :: real
  offtakePlantCapex :: real
  modelA :: ownership
  modelB :: ownership
  modelC :: ownership

text \<open>The offtake revenue, the \<^verbatim>\<open>let annualRevenue\<close> of \<^verbatim>\<open>ownershipComparison\<close>.\<close>

definition offtakeRevenue :: "inputs \<Rightarrow> real" where
  "offtakeRevenue inp =
     (if offtake inp = dac
      then dacTco2PerYear (outputs inp) * (dacMarketPrice inp - dacProcurementPrice inp)
      else if offtake inp = waterTreatmentFO \<or> offtake inp = atmosphericWater
      then (let waterVolume = (if offtake inp = waterTreatmentFO
                               then treviM3PerYear (outputs inp)
                               else uravuM3PerYear (outputs inp))
            in waterVolume * (waterMarketPrice inp - waterProductionCost inp))
      else annualHeatMWh (core inp) * thermalEnergyPrice inp)"

definition ownershipComparison :: "host \<Rightarrow> offData \<Rightarrow> inputs \<Rightarrow> ownershipComparison_out" where
  "ownershipComparison h od inp =
     (let plantCosts = OFFTAKE_PLANT_COSTS (offtake inp);
          heatExchangerCapex = recoverableHeatMW (core inp) * whrCapitalCostPerMW inp * 1000000;
          pipingCapex = \<bar>offtakeCosts_out.totalCapex (offtakeCosts h od inp)\<bar>;
          offtakePlantCapex = capexM plantCosts * 1000000;
          offtakePlantOpex = opexPerYear plantCosts;
          annualRevenue = offtakeRevenue inp;
          savings = annualOperationalSavings (dcSavings inp);
          modelA = \<lparr> totalCapex = heatExchangerCapex + pipingCapex + offtakePlantCapex,
                     annualOpex = offtakePlantOpex,
                     annualRevenue = savings + annualRevenue,
                     annualProfit = savings + annualRevenue - offtakePlantOpex,
                     paybackYears = jsdiv (heatExchangerCapex + pipingCapex + offtakePlantCapex)
                                          (savings + annualRevenue - offtakePlantOpex),
                     thirdPartyProfit = None \<rparr>;
          annualTippingFee = annualHeatMWh (core inp) * tippingFeePerMWh inp;
          modelB = \<lparr> totalCapex = heatExchangerCapex,
                     annualOpex = 0,
                     annualRevenue = savings + annualTippingFee,
                     annualProfit = savings + annualTippingFee,
                     paybackYears = jsdiv heatExchangerCapex (savings + annualTippingFee),
                     thirdPartyProfit = Some (annualRevenue - offtakePlantOpex - annualTippingFee) \<rparr>;
          msRevenueShare = annualRevenue * (revenueSharePercent inp / 100);
          modelC = \<lparr> totalCapex = heatExchangerCapex,
                     annualOpex = 0,
                     annualRevenue = savings + msRevenueShare,
                     annualProfit = savings + msRevenueShare,
                     paybackYears = jsdiv heatExchangerCapex (savings + msRevenueShare),
                     thirdPartyProfit =
                       Some (annualRevenue * (1 - revenueSharePercent inp / 100) - offtakePlantOpex) \<rparr>
      in \<lparr> plantCosts = plantCosts, heatExchangerCapex = heatExchangerCapex,
           pipingCapex = pipingCapex, offtakePlantCapex = offtakePlantCapex,
           modelA = modelA, modelB = modelB, modelC = modelC \<rparr>)"

subsection \<open>The payback tiles\<close>

text \<open>
  What a payback tile shows: the dash, or a number formatted by \<^verbatim>\<open>toFixed(1)\<close> and
  followed by \<^verbatim>\<open>yrs\<close>. The formatting is left out: \<open>Yrs x\<close> is the tile of the
  number \<open>x\<close>.
\<close>

datatype shown = Dash | Yrs jsnum

text \<open>\<^verbatim>\<open>savingsPerMW\<close>; \<^verbatim>\<open>!x\<close> of a number is its being zero.\<close>

definition savingsPerMW :: "inputs \<Rightarrow> real" where
  "savingsPerMW inp =
     (if recoverableHeatMW (core inp) = 0 \<or> recoverableHeatMW (core inp) \<le> 0 then 0
      else annualOperationalSavings (dcSavings inp) / recoverableHeatMW (core inp))"

text \<open>
  The payback of the two savings tiles of the page (\<^verbatim>\<open>1 MW system\<close> and
  \<^verbatim>\<open>10 MW example\<close>, the same expression in both): guarded by
  \<^verbatim>\<open>savingsPerMW > 0\<close>, with the dash otherwise.
\<close>

definition savingsPaybackTile :: "inputs \<Rightarrow> shown" where
  "savingsPaybackTile inp =
     (if savingsPerMW inp > 0
      then Yrs (Num (whrCapitalCostPerMW inp * 1000000 / savingsPerMW inp))
      else Dash)"

text \<open>
  The payback of the three ownership tiles, and of the PDF export:
  \<^verbatim>\<open>paybackYears.toFixed(1)\<close> followed by \<^verbatim>\<open>yrs\<close>, with no guard.
\<close>

definition ownershipPaybackTile :: "ownership \<Rightarrow> shown" where
  "ownershipPaybackTile m = Yrs (paybackYears m)"

subsection \<open>Concrete inputs\<close>

text \<open>
  A runtime and a document with no rows. The conversions of the runtime are not called
  where the cells of the table are strings of ASCII characters or \<^verbatim>\<open>null\<close>.
\<close>

definition noHost :: host where
  "noHost = \<lparr> numberToString = (\<lambda>x. []), stringToNumber = (\<lambda>s. None),
              lowerCaseOf = (\<lambda>s. s) \<rparr>"

definition noData :: offData where
  "noData = \<lparr> raw_rows = [], cost_per_km = None \<rparr>"

text \<open>
  A scenario in which the offtake loses money: DAC sold below its procurement price,
  no energy reuse, no tipping fee.
\<close>

definition lossInputs :: inputs where
  "lossInputs = initialInputs\<lparr> erfPercent := 0, dacMarketPrice := 100, tippingFeePerMWh := 0 \<rparr>"

text \<open>
  A region table whose first row has no location, as a row of a spreadsheet that holds
  no region does, followed by the rows of Germany and of the European average.
\<close>

definition blankRow :: row where
  "blankRow = \<lparr> EMPTY = CNull, EMPTY_9 = CNull \<rparr>"

definition germanyRow :: row where
  "germanyRow = \<lparr> EMPTY = CStr ''Germany'', EMPTY_9 = CNum 0.3 \<rparr>"

definition europeRow :: row where
  "europeRow = \<lparr> EMPTY = CStr ''European average'', EMPTY_9 = CNum 0.1 \<rparr>"

definition blankFirstData :: offData where
  "blankFirstData = \<lparr> raw_rows = [blankRow, germanyRow, europeRow], cost_per_km = None \<rparr>"

definition germanyInputs :: inputs where
  "germanyInputs = initialInputs\<lparr> country := ''Germany'' \<rparr>"

section \<open>Properties\<close>

subsection \<open>Field by field\<close>

lemma clamp_bounds: "lo \<le> hi \<Longrightarrow> lo \<le> clamp n lo hi \<and> clamp n lo hi \<le> hi"
  by (simp add: clamp_def)

lemma core_fields:
  "recoverableHeatMW (core inp) = itLoadMW inp * (clamp (recoveryPct inp) 0 100 / 100)"
  "annualHeatMWh (core inp) =
     itLoadMW inp * (clamp (recoveryPct inp) 0 100 / 100) * hoursPerYear inp"
  "effectiveMWyr (core inp) =
     itLoadMW inp * (clamp (recoveryPct inp) 0 100 / 100) * (hoursPerYear inp / 8760)"
  by (simp_all add: core_def Let_def)

lemma FACILITIES_Ballard:
  "FACILITIES ''Ballard'' =
     Some \<lparr> location = ''Quincy, WA'', coolingType = ''Direct evaporative air'',
            ambientTempC = 10, electricityCostPerMWh = 60, pueBaseline = 1.59,
            pueMaxImprovement = 0.06, wueBaseline = 0.359, wueWithHR = 0,
            scenarioMatch = ''air cooled'',
            whrFriendliness = ''Low (air exhaust, low grade)'' \<rparr>"
  by (simp add: FACILITIES_def)

lemma FACILITIES_Fremont:
  "FACILITIES ''Fremont/Fairwater'' =
     Some \<lparr> location = ''Northern CA'',
            coolingType = ''Air-cooled chillers, closed-loop FW'',
            ambientTempC = 15, electricityCostPerMWh = 115, pueBaseline = 1.72,
            pueMaxImprovement = 0.04, wueBaseline = 0, wueWithHR = 0,
            scenarioMatch = ''air cooled'', whrFriendliness = ''High'' \<rparr>"
  by (simp add: FACILITIES_def)

lemma initial_facts:
  "dcConfig initialInputs = ''Ballard''"
  "erfPercent initialInputs = 10"
  "tempAdjustmentFactor initialInputs = 0.98"
  "coolingCOP initialInputs = 3.3"
  by (simp_all add: tempAdjustmentFactor_def initialInputs_def)

lemma savings_field:
  "annualOperationalSavings (dcSavings inp) =
     (case FACILITIES (dcConfig inp) of
        None \<Rightarrow> 0
      | Some f \<Rightarrow>
          if recoverableHeatMW (core inp) > 0
          then recoverableHeatMW (core inp) * (erfPercent inp / 100) * hoursPerYear inp
                 * (1 / coolingCOP inp) * electricityCost inp
          else 0)"
  by (simp add: dcSavings_def dcSavingsFor_def Let_def split: option.splits)

lemma modelA_fields:
  "ownership.totalCapex (modelA (ownershipComparison h od inp)) =
     recoverableHeatMW (core inp) * whrCapitalCostPerMW inp * 1000000
     + \<bar>offtakeCosts_out.totalCapex (offtakeCosts h od inp)\<bar>
     + capexM (OFFTAKE_PLANT_COSTS (offtake inp)) * 1000000"
  "ownership.annualOpex (modelA (ownershipComparison h od inp)) =
     opexPerYear (OFFTAKE_PLANT_COSTS (offtake inp))"
  "annualRevenue (modelA (ownershipComparison h od inp)) =
     annualOperationalSavings (dcSavings inp) + offtakeRevenue inp"
  "annualProfit (modelA (ownershipComparison h od inp)) =
     annualOperationalSavings (dcSavings inp) + offtakeRevenue inp
       - opexPerYear (OFFTAKE_PLANT_COSTS (offtake inp))"
  "paybackYears (modelA (ownershipComparison h od inp)) =
     jsdiv (recoverableHeatMW (core inp) * whrCapitalCostPerMW inp * 1000000
             + \<bar>offtakeCosts_out.totalCapex (offtakeCosts h od inp)\<bar>
             + capexM (OFFTAKE_PLANT_COSTS (offtake inp)) * 1000000)
           (annualOperationalSavings (dcSavings inp) + offtakeRevenue inp
             - opexPerYear (OFFTAKE_PLANT_COSTS (offtake inp)))"
  by (simp_all add: ownershipComparison_def Let_def)

lemma modelB_fields:
  "ownership.totalCapex (modelB (ownershipComparison h od inp)) =
     recoverableHeatMW (core inp) * whrCapitalCostPerMW inp * 1000000"
  "ownership.annualOpex (modelB (ownershipComparison h od inp)) = 0"
  "annualRevenue (modelB (ownershipComparison h od inp)) =
     annualOperationalSavings (dcSavings inp) + annualHeatMWh (core inp) * tippingFeePerMWh inp"
  "annualProfit (modelB (ownershipComparison h od inp)) =
     annualOperationalSavings (dcSavings inp) + annualHeatMWh (core inp) * tippingFeePerMWh inp"
  "paybackYears (modelB (ownershipComparison h od inp)) =
     jsdiv (recoverableHeatMW (core inp) * whrCapitalCostPerMW inp * 1000000)
           (annualOperationalSavings (dcSavings inp)
             + annualHeatMWh (core inp) * tippingFeePerMWh inp)"
  "thirdPartyProfit (modelB (ownershipComparison h od inp)) =
     Some (offtakeRevenue inp - opexPerYear (OFFTAKE_PLANT_COSTS (offtake inp))
            - annualHeatMWh (core inp) * tippingFeePerMWh inp)"
  by (simp_all add: ownershipComparison_def Let_def)

lemma modelC_fields:
  "ownership.totalCapex (modelC (ownershipComparison h od inp)) =
     recoverableHeatMW (core inp) * whrCapitalCostPerMW inp * 1000000"
  "ownership.annualOpex (modelC (ownershipComparison h od inp)) = 0"
  "annualRevenue (modelC (ownershipComparison h od inp)) =
     annualOperationalSavings (dcSavings inp)
       + offtakeRevenue inp * (revenueSharePercent inp / 100)"
  "annualProfit (modelC (ownershipComparison h od inp)) =
     annualOperationalSavings (dcSavings inp)
       + offtakeRevenue inp * (revenueSharePercent inp / 100)"
  "paybackYears (modelC (ownershipComparison h od inp)) =
     jsdiv (recoverableHeatMW (core inp) * whrCapitalCostPerMW inp * 1000000)
           (annualOperationalSavings (dcSavings inp)
             + offtakeRevenue inp * (revenueSharePercent inp / 100))"
  "thirdPartyProfit (modelC (ownershipComparison h od inp)) =
     Some (offtakeRevenue inp * (1 - revenueSharePercent inp / 100)
            - opexPerYear (OFFTAKE_PLANT_COSTS (offtake inp)))"
  by (simp_all add: ownershipComparison_def Let_def)

lemma offtakeCosts_noData:
  "offtakeCosts_out.totalCapex (offtakeCosts h noData inp) =
     (200000 + 10000 * intakeDistanceKm inp) * recoverableHeatMW (core inp)"
  by (simp add: offtakeCosts_def noData_def findRegionRow_def subsidyOf_def
        distanceCostPerMWperKm_def Let_def)

lemmas scenario_defs =
  offtakeCosts_noData core_fields savings_field offtakeRevenue_def outputs_def perf_def
  ramp_def clamp_def Let_def lossInputs_def initialInputs_def FACILITIES_Ballard
  DAC_TCO2_PER_MW_YEAR_def DAC_RELEASE_TEMP_C_def

lemma initial_modelA:
  "ownership.totalCapex (modelA (ownershipComparison noHost noData initialInputs)) = 13100000"
  "annualRevenue (modelA (ownershipComparison noHost noData initialInputs)) = 41610600 / 11"
  "ownership.annualOpex (modelA (ownershipComparison noHost noData initialInputs)) = 350000"
  "annualProfit (modelA (ownershipComparison noHost noData initialInputs)) = 37760600 / 11"
  by (simp_all add: modelA_fields scenario_defs)

lemma initial_modelB:
  "annualProfit (modelB (ownershipComparison noHost noData initialInputs)) = 35857600 / 11"
  "thirdPartyProfit (modelB (ownershipComparison noHost noData initialInputs)) = Some 173000"
  by (simp_all add: modelB_fields scenario_defs)

lemma initial_modelC:
  "annualProfit (modelC (ownershipComparison noHost noData initialInputs)) = 24093100 / 11"
  "thirdPartyProfit (modelC (ownershipComparison noHost noData initialInputs)) = Some 1242500"
  by (simp_all add: modelC_fields scenario_defs)

lemma loss_modelA:
  "ownership.totalCapex (modelA (ownershipComparison noHost noData lossInputs)) = 13100000"
  "annualRevenue (modelA (ownershipComparison noHost noData lossInputs)) = - 2275000"
  "ownership.annualOpex (modelA (ownershipComparison noHost noData lossInputs)) = 350000"
  by (simp_all add: modelA_fields scenario_defs)

lemma loss_modelB:
  "ownership.totalCapex (modelB (ownershipComparison noHost noData lossInputs)) = 5000000"
  "annualRevenue (modelB (ownershipComparison noHost noData lossInputs)) = 0"
  "ownership.annualOpex (modelB (ownershipComparison noHost noData lossInputs)) = 0"
  by (simp_all add: modelB_fields scenario_defs)

subsection \<open>The ramp\<close>

lemma ramp_lower: "x0 < x1 \<Longrightarrow> y0 \<le> y1 \<Longrightarrow> y0 \<le> ramp x x0 x1 y0 y1"
  by (simp add: ramp_def Let_def)

lemma ramp_upper:
  assumes "x0 < x1" "y0 \<le> y1"
  shows "ramp x x0 x1 y0 y1 \<le> y1"
proof (cases "x \<le> x0 \<or> x1 \<le> x")
  case True
  with assms show ?thesis by (auto simp: ramp_def)
next
  case False
  then have mid: "x0 < x" "x < x1" by auto
  have "(x - x0) / (x1 - x0) \<le> 1" using mid assms by simp
  then have "(x - x0) / (x1 - x0) * (y1 - y0) \<le> 1 * (y1 - y0)"
    using assms(2) by (intro mult_right_mono) auto
  with mid show ?thesis by (simp add: ramp_def Let_def)
qed

lemma ramp_mono:
  assumes "x0 < x1" "y0 \<le> y1" "x \<le> x'"
  shows "ramp x x0 x1 y0 y1 \<le> ramp x' x0 x1 y0 y1"
proof -
  consider (lo) "x \<le> x0" | (hi) "x1 \<le> x'" | (mid) "x0 < x" "x' < x1"
    by linarith
  then show ?thesis
  proof cases
    case lo
    then have "ramp x x0 x1 y0 y1 = y0" by (simp add: ramp_def)
    then show ?thesis using ramp_lower [OF assms(1,2)] by simp
  next
    case hi
    then have "ramp x' x0 x1 y0 y1 = y1" using assms(1) by (simp add: ramp_def)
    then show ?thesis using ramp_upper [OF assms(1,2)] by simp
  next
    case mid
    have "(x - x0) / (x1 - x0) \<le> (x' - x0) / (x1 - x0)"
      using assms by (simp add: divide_right_mono)
    then have "(x - x0) / (x1 - x0) * (y1 - y0) \<le> (x' - x0) / (x1 - x0) * (y1 - y0)"
      using assms(2) by (intro mult_right_mono) auto
    with mid assms(3) show ?thesis by (simp add: ramp_def Let_def)
  qed
qed

text \<open>
  Claim C3. For a ramp with \<open>x0 < x1\<close> and \<open>y0 \<le> y1\<close>: \<open>ramp\<close> is non-decreasing
  in \<open>x\<close>, its value lies in \<open>[y0, y1]\<close>, it is \<open>y0\<close> for every \<open>x \<le> x0\<close>, \<open>y1\<close> for
  every \<open>x \<ge> x1\<close>, and the linear interpolation of the two end points strictly
  between \<open>x0\<close> and \<open>x1\<close>.
\<close>

theorem ramp_monotone_clamped_linear:
  assumes "x0 < x1" and "y0 \<le> y1"
  shows "(\<forall>x x'. x \<le> x' \<longrightarrow> ramp x x0 x1 y0 y1 \<le> ramp x' x0 x1 y0 y1)
       \<and> (\<forall>x. y0 \<le> ramp x x0 x1 y0 y1 \<and> ramp x x0 x1 y0 y1 \<le> y1)
       \<and> (\<forall>x. x \<le> x0 \<longrightarrow> ramp x x0 x1 y0 y1 = y0)
       \<and> (\<forall>x. x \<ge> x1 \<longrightarrow> ramp x x0 x1 y0 y1 = y1)
       \<and> (\<forall>x. x0 < x \<and> x < x1 \<longrightarrow>
              ramp x x0 x1 y0 y1 = y0 + (x - x0) / (x1 - x0) * (y1 - y0))"
proof (intro conjI allI impI)
  fix x x' :: real
  assume "x \<le> x'"
  then show "ramp x x0 x1 y0 y1 \<le> ramp x' x0 x1 y0 y1"
    using assms by (rule ramp_mono [rotated 2])
next
  fix x
  show "y0 \<le> ramp x x0 x1 y0 y1" using assms by (rule ramp_lower)
next
  fix x
  show "ramp x x0 x1 y0 y1 \<le> y1" using assms by (rule ramp_upper)
next
  fix x
  assume "x \<le> x0"
  then show "ramp x x0 x1 y0 y1 = y0" by (simp add: ramp_def)
next
  fix x
  assume "x1 \<le> x"
  then show "ramp x x0 x1 y0 y1 = y1" using assms(1) by (simp add: ramp_def)
next
  fix x
  assume "x0 < x \<and> x < x1"
  then show "ramp x x0 x1 y0 y1 = y0 + (x - x0) / (x1 - x0) * (y1 - y0)"
    by (simp add: ramp_def Let_def)
qed

text \<open>The DAC ramp, from 0.5 at 30 degrees to 1 at 65, at five temperatures.\<close>

theorem ramp_monotone_clamped_linear_witness:
  "(30::real) < 65 \<and> (0.5::real) \<le> 1
   \<and> ramp 20 30 65 0.5 1 = 0.5 \<and> ramp 30 30 65 0.5 1 = 0.5
   \<and> ramp 44 30 65 0.5 1 = 0.7 \<and> ramp 65 30 65 0.5 1 = 1 \<and> ramp 70 30 65 0.5 1 = 1
   \<and> ramp 40 30 65 0.5 1 \<le> ramp 44 30 65 0.5 1
   \<and> 0.5 \<le> ramp 44 30 65 0.5 1 \<and> ramp 44 30 65 0.5 1 \<le> 1"
proof -
  have h: "(30::real) < 65" "(0.5::real) \<le> 1" by simp_all
  note r = ramp_monotone_clamped_linear [OF h]
  have a: "ramp 20 30 65 0.5 1 = 0.5" "ramp 30 30 65 0.5 1 = 0.5" using r by simp_all
  have b: "ramp 65 30 65 0.5 1 = 1" "ramp 70 30 65 0.5 1 = 1" using r by simp_all
  have c: "ramp 44 30 65 0.5 1 = 0.5 + (44 - 30) / (65 - 30) * (1 - 0.5)"
    using r by simp
  have d: "ramp 40 30 65 0.5 1 \<le> ramp 44 30 65 0.5 1" using r by simp
  have e: "0.5 \<le> ramp 44 30 65 0.5 1" "ramp 44 30 65 0.5 1 \<le> 1" using r by simp_all
  from h a b c d e show ?thesis by simp
qed

subsection \<open>The thermal core\<close>

text \<open>
  Claim C5. In the scenario \<open>itLoadMW = 50\<close>, \<open>recoveryPct = 10\<close>,
  \<open>hoursPerYear = 8760\<close>, \<open>dcReturnTempC = 65\<close> (with DAC or any other offtake
  selected, and whatever the other inputs are): \<open>recoverableHeatMW = 5\<close>,
  \<open>effectiveMWyr = 5\<close>, the DAC performance factor is 1, and
  \<open>dacTco2PerYear = 5 * 4550 * 1 = 22750\<close>.
\<close>

theorem scenario_dac_50MW:
  assumes "itLoadMW inp = 50" and "recoveryPct inp = 10" and "hoursPerYear inp = 8760"
      and "dcReturnTempC inp = 65"
  shows "recoverableHeatMW (core inp) = 5 \<and> effectiveMWyr (core inp) = 5
       \<and> dacFactor (perf inp) = 1
       \<and> dacTco2PerYear (outputs inp) = 5 * 4550 * 1
       \<and> dacTco2PerYear (outputs inp) = 22750"
  using assms
  by (simp add: core_def perf_def outputs_def ramp_def clamp_def
        DAC_RELEASE_TEMP_C_def DAC_TCO2_PER_MW_YEAR_def Let_def)

theorem scenario_dac_50MW_witness:
  "offtake (initialInputs\<lparr> itLoadMW := 50, dcReturnTempC := 65 \<rparr>) = dac
   \<and> itLoadMW (initialInputs\<lparr> itLoadMW := 50, dcReturnTempC := 65 \<rparr>) = 50
   \<and> recoveryPct (initialInputs\<lparr> itLoadMW := 50, dcReturnTempC := 65 \<rparr>) = 10
   \<and> hoursPerYear (initialInputs\<lparr> itLoadMW := 50, dcReturnTempC := 65 \<rparr>) = 8760
   \<and> dcReturnTempC (initialInputs\<lparr> itLoadMW := 50, dcReturnTempC := 65 \<rparr>) = 65
   \<and> recoverableHeatMW (core (initialInputs\<lparr> itLoadMW := 50, dcReturnTempC := 65 \<rparr>)) = 5
   \<and> effectiveMWyr (core (initialInputs\<lparr> itLoadMW := 50, dcReturnTempC := 65 \<rparr>)) = 5
   \<and> dacFactor (perf (initialInputs\<lparr> itLoadMW := 50, dcReturnTempC := 65 \<rparr>)) = 1
   \<and> dacTco2PerYear (outputs (initialInputs\<lparr> itLoadMW := 50, dcReturnTempC := 65 \<rparr>)) = 22750"
proof -
  let ?i = "initialInputs\<lparr> itLoadMW := 50, dcReturnTempC := 65 \<rparr>"
  have h: "itLoadMW ?i = 50" "recoveryPct ?i = 10" "hoursPerYear ?i = 8760"
    "dcReturnTempC ?i = 65" "offtake ?i = dac"
    by (simp_all add: initialInputs_def)
  from scenario_dac_50MW [OF h(1-4)] h show ?thesis by simp
qed

text \<open>
  Claim C6, as amended. For every \<open>itLoadMW \<ge> 0\<close> and every \<open>recoveryPct\<close>:
  \<open>0 \<le> recoverableHeatMW \<le> itLoadMW\<close>; \<open>recoverableHeatMW\<close> is 0 when the clamped
  \<open>recoveryPct\<close> is 0 and is \<open>itLoadMW\<close> when the clamped \<open>recoveryPct\<close> is 100; and
  when \<open>itLoadMW > 0\<close> each of the two equalities holds exactly then.
\<close>

theorem recoverable_heat_bounds:
  assumes "0 \<le> itLoadMW inp"
  shows "0 \<le> recoverableHeatMW (core inp)
       \<and> recoverableHeatMW (core inp) \<le> itLoadMW inp
       \<and> (clamp (recoveryPct inp) 0 100 = 0 \<longrightarrow> recoverableHeatMW (core inp) = 0)
       \<and> (clamp (recoveryPct inp) 0 100 = 100 \<longrightarrow> recoverableHeatMW (core inp) = itLoadMW inp)
       \<and> (0 < itLoadMW inp \<longrightarrow>
            (recoverableHeatMW (core inp) = 0 \<longleftrightarrow> clamp (recoveryPct inp) 0 100 = 0)
          \<and> (recoverableHeatMW (core inp) = itLoadMW inp
               \<longleftrightarrow> clamp (recoveryPct inp) 0 100 = 100))"
proof -
  define c where "c = clamp (recoveryPct inp) 0 100"
  have c: "0 \<le> c" "c \<le> 100"
    using clamp_bounds [of 0 100 "recoveryPct inp"] by (simp_all add: c_def)
  have r: "recoverableHeatMW (core inp) = itLoadMW inp * (c / 100)"
    by (simp add: core_fields c_def)
  have lo: "0 \<le> itLoadMW inp * (c / 100)" using assms c by simp
  have "itLoadMW inp * (c / 100) \<le> itLoadMW inp * 1"
    using assms c by (intro mult_left_mono) auto
  then have hi: "itLoadMW inp * (c / 100) \<le> itLoadMW inp" by simp
  show ?thesis unfolding r c_def [symmetric] using lo hi by auto
qed

text \<open>
  The initial state with \<open>recoveryPct\<close> set to -5 (clamped to 0), to 10 and to 250
  (clamped to 100); its \<open>itLoadMW\<close> is 200.
\<close>

theorem recoverable_heat_bounds_witness:
  "0 < itLoadMW initialInputs
   \<and> clamp (recoveryPct (initialInputs\<lparr> recoveryPct := - 5 \<rparr>)) 0 100 = 0
   \<and> recoverableHeatMW (core (initialInputs\<lparr> recoveryPct := - 5 \<rparr>)) = 0
   \<and> clamp (recoveryPct (initialInputs\<lparr> recoveryPct := 250 \<rparr>)) 0 100 = 100
   \<and> recoverableHeatMW (core (initialInputs\<lparr> recoveryPct := 250 \<rparr>)) = 200
   \<and> 0 \<le> recoverableHeatMW (core initialInputs)
   \<and> recoverableHeatMW (core initialInputs) \<le> 200
   \<and> recoverableHeatMW (core initialInputs) \<noteq> 0
   \<and> recoverableHeatMW (core initialInputs) \<noteq> 200"
proof -
  let ?lo = "initialInputs\<lparr> recoveryPct := - 5 \<rparr>"
  let ?hi = "initialInputs\<lparr> recoveryPct := 250 \<rparr>"
  have p: "0 < itLoadMW initialInputs" "itLoadMW initialInputs = 200"
    "itLoadMW ?lo = 200" "itLoadMW ?hi = 200"
    by (simp_all add: initialInputs_def)
  have c: "clamp (recoveryPct ?lo) 0 100 = 0" "clamp (recoveryPct ?hi) 0 100 = 100"
    "clamp (recoveryPct initialInputs) 0 100 = 10"
    by (simp_all add: clamp_def initialInputs_def)
  have a: "recoverableHeatMW (core ?lo) = 0"
    using recoverable_heat_bounds [of ?lo] p c by simp
  have b: "recoverableHeatMW (core ?hi) = 200"
    using recoverable_heat_bounds [of ?hi] p c by simp
  have m: "0 \<le> recoverableHeatMW (core initialInputs)"
    "recoverableHeatMW (core initialInputs) \<le> 200"
    "recoverableHeatMW (core initialInputs) \<noteq> 0"
    "recoverableHeatMW (core initialInputs) \<noteq> 200"
    using recoverable_heat_bounds [of initialInputs] p c by simp_all
  from p c a b m show ?thesis by simp
qed

text \<open>
  Claim C6 as it is written fails where \<open>itLoadMW = 0\<close>: with \<open>recoveryPct = 50\<close>
  the recoverable heat is 0 although the clamped \<open>recoveryPct\<close> is 50, not 0.
\<close>

theorem recoverable_heat_zero_load_counterexample:
  "0 \<le> itLoadMW (initialInputs\<lparr> itLoadMW := 0, recoveryPct := 50 \<rparr>)
   \<and> recoverableHeatMW (core (initialInputs\<lparr> itLoadMW := 0, recoveryPct := 50 \<rparr>)) = 0
   \<and> clamp (recoveryPct (initialInputs\<lparr> itLoadMW := 0, recoveryPct := 50 \<rparr>)) 0 100 = 50
   \<and> \<not> (recoverableHeatMW (core (initialInputs\<lparr> itLoadMW := 0, recoveryPct := 50 \<rparr>)) = 0
          \<longleftrightarrow> clamp (recoveryPct (initialInputs\<lparr> itLoadMW := 0, recoveryPct := 50 \<rparr>)) 0 100 = 0)"
  by (simp add: core_def clamp_def initialInputs_def Let_def)

text \<open>
  Claim C10. The supply temperature is \<open>dcReturnTempC - 12\<close>, so \<open>dcDeltaT\<close> is 12
  for every input: it varies with none of them and the floor \<open>max 1\<close> is never
  reached. (Over the reals; the doubles of the source subtract with rounding.)
\<close>

theorem dcDeltaT_constant:
  "dcSupplyTempC inp = dcReturnTempC inp - 12 \<and> dcDeltaT (core inp) = 12
   \<and> dcReturnTempC inp - dcSupplyTempC inp > 1"
  by (simp add: core_def dcSupplyTempC_def Let_def)

subsection \<open>PUE and WUE with heat reuse\<close>

text \<open>
  Claim C4. \<open>tempAdjustmentFactor\<close> is \<open>max 0.85 (1 - (dcReturnTempC - 25) / 100)\<close>,
  and for every facility \<open>f\<close> and every energy reuse fraction \<open>erf = erfPercent / 100\<close>
  (in \<open>[0, 1]\<close> or not), \<open>pueWithHR\<close> is
  \<open>pueBaseline f * (1 - pueMaxImprovement f * erf * tempAdjustmentFactor)\<close>, which is
  \<open>pueBaseline f\<close> when \<open>erf = 0\<close>. The facility of \<open>dcSavings\<close> is the one that
  \<open>dcConfig\<close> names.
\<close>

theorem pueWithHR_formula:
  "tempAdjustmentFactor inp = max 0.85 (1 - (dcReturnTempC inp - 25) / 100)
   \<and> dcSavings inp = dcSavingsFor (FACILITIES (dcConfig inp)) inp
   \<and> erf (dcSavingsFor (Some f) inp) = erfPercent inp / 100
   \<and> pueWithHR (dcSavingsFor (Some f) inp) =
        Some (Facility.pueBaseline f *
               (1 - pueMaxImprovement f * (erfPercent inp / 100) * tempAdjustmentFactor inp))
   \<and> (erfPercent inp / 100 = 0 \<longrightarrow>
        pueWithHR (dcSavingsFor (Some f) inp) = Some (Facility.pueBaseline f))"
  by (simp add: dcSavingsFor_def Let_def tempAdjustmentFactor_def dcSavings_def)

text \<open>Ballard, whose baseline is 1.59, at an ERF of 0 and of 10 percent; return at 27 degrees.\<close>

theorem pueWithHR_formula_witness:
  "erfPercent (initialInputs\<lparr> erfPercent := 0 \<rparr>) / 100 = 0
   \<and> pueWithHR (dcSavings (initialInputs\<lparr> erfPercent := 0 \<rparr>)) = Some 1.59
   \<and> pueWithHR (dcSavings initialInputs) = Some (1.59 * (1 - 0.06 * (10 / 100) * 0.98))"
proof -
  let ?f = "the (FACILITIES ''Ballard'')"
  have a: "pueWithHR (dcSavingsFor (Some ?f) (initialInputs\<lparr> erfPercent := 0 \<rparr>))
             = Some (Facility.pueBaseline ?f)"
    using pueWithHR_formula [of "initialInputs\<lparr> erfPercent := 0 \<rparr>" ?f] by simp
  have b: "pueWithHR (dcSavingsFor (Some ?f) initialInputs) =
        Some (Facility.pueBaseline ?f *
               (1 - pueMaxImprovement ?f * (erfPercent initialInputs / 100)
                      * tempAdjustmentFactor initialInputs))"
    using pueWithHR_formula [of initialInputs ?f] by simp
  show ?thesis using a b
    by (simp add: dcSavings_def initial_facts FACILITIES_Ballard)
qed

text \<open>
  Claim C7. For every facility with \<open>wueBaseline = 0\<close> and every ERF: \<open>wueWithHR\<close>
  is 0 and \<open>wueReduction\<close> is \<^verbatim>\<open>null\<close>. For a facility with \<open>wueBaseline > 0\<close>,
  \<open>wueWithHR\<close> is the baseline reduced by 15 percent per 100 percent of ERF, scaled
  by \<open>tempAdjustmentFactor\<close>.
\<close>

theorem wueWithHR_cases:
  "(Facility.wueBaseline f = 0 \<longrightarrow>
      wueWithHR (dcSavingsFor (Some f) inp) = Some 0
    \<and> wueReduction (dcSavingsFor (Some f) inp) = None)
   \<and> (Facility.wueBaseline f > 0 \<longrightarrow>
      wueWithHR (dcSavingsFor (Some f) inp) =
        Some (Facility.wueBaseline f *
               (1 - 0.15 * (erfPercent inp / 100) * tempAdjustmentFactor inp)))
   \<and> dcSavings inp = dcSavingsFor (FACILITIES (dcConfig inp)) inp"
  by (simp add: dcSavingsFor_def Let_def dcSavings_def)

text \<open>Fremont/Fairwater is dry-cooled; Ballard has a baseline of 0.359.\<close>

theorem wueWithHR_cases_witness:
  "Facility.wueBaseline (the (FACILITIES ''Fremont/Fairwater'')) = 0
   \<and> wueWithHR (dcSavings (initialInputs\<lparr> dcConfig := ''Fremont/Fairwater'' \<rparr>)) = Some 0
   \<and> wueReduction (dcSavings (initialInputs\<lparr> dcConfig := ''Fremont/Fairwater'' \<rparr>)) = None
   \<and> Facility.wueBaseline (the (FACILITIES ''Ballard'')) > 0
   \<and> wueWithHR (dcSavings initialInputs) = Some (0.359 * (1 - 0.15 * (10 / 100) * 0.98))"
proof -
  let ?fr = "the (FACILITIES ''Fremont/Fairwater'')"
  let ?ba = "the (FACILITIES ''Ballard'')"
  let ?i = "initialInputs\<lparr> dcConfig := ''Fremont/Fairwater'' \<rparr>"
  have z: "Facility.wueBaseline ?fr = 0" by (simp add: FACILITIES_Fremont)
  have p: "Facility.wueBaseline ?ba > 0" by (simp add: FACILITIES_Ballard)
  have a: "wueWithHR (dcSavingsFor (Some ?fr) ?i) = Some 0
           \<and> wueReduction (dcSavingsFor (Some ?fr) ?i) = None"
    using wueWithHR_cases [of ?fr ?i] z by blast
  have b: "wueWithHR (dcSavingsFor (Some ?ba) initialInputs) =
        Some (Facility.wueBaseline ?ba *
               (1 - 0.15 * (erfPercent initialInputs / 100) * tempAdjustmentFactor initialInputs))"
    using wueWithHR_cases [of ?ba initialInputs] p by blast
  show ?thesis using z p a b
    by (simp add: dcSavings_def initial_facts FACILITIES_Ballard FACILITIES_Fremont)
qed

subsection \<open>Ownership models\<close>

text \<open>
  Claim C9. For all inputs with \<open>coolingCOP > 0\<close> (where the model of
  \<^verbatim>\<open>1 / coolingCOP\<close> is the source's): model A's annual profit is the operational
  savings plus the offtake revenue minus the plant's opex, and in model B as in
  model C the data centre's annual profit plus the third party's profit equals model
  A's annual profit.
\<close>

theorem value_conserved:
  assumes "0 < coolingCOP inp"
  shows "annualProfit (modelA (ownershipComparison h od inp)) =
           annualOperationalSavings (dcSavings inp) + offtakeRevenue inp
             - opexPerYear (OFFTAKE_PLANT_COSTS (offtake inp))
       \<and> map_option (\<lambda>tp. annualProfit (modelB (ownershipComparison h od inp)) + tp)
            (thirdPartyProfit (modelB (ownershipComparison h od inp)))
          = Some (annualProfit (modelA (ownershipComparison h od inp)))
       \<and> map_option (\<lambda>tp. annualProfit (modelC (ownershipComparison h od inp)) + tp)
            (thirdPartyProfit (modelC (ownershipComparison h od inp)))
          = Some (annualProfit (modelA (ownershipComparison h od inp)))"
  by (simp add: modelA_fields modelB_fields modelC_fields algebra_simps)

text \<open>The initial state of the page, with no region table.\<close>

theorem value_conserved_witness:
  "0 < coolingCOP initialInputs
   \<and> annualProfit (modelA (ownershipComparison noHost noData initialInputs)) = 37760600 / 11
   \<and> annualProfit (modelB (ownershipComparison noHost noData initialInputs)) = 35857600 / 11
   \<and> thirdPartyProfit (modelB (ownershipComparison noHost noData initialInputs)) = Some 173000
   \<and> annualProfit (modelC (ownershipComparison noHost noData initialInputs)) = 24093100 / 11
   \<and> thirdPartyProfit (modelC (ownershipComparison noHost noData initialInputs)) = Some 1242500
   \<and> (35857600 / 11 + 173000 :: real) = 37760600 / 11
   \<and> (24093100 / 11 + 1242500 :: real) = 37760600 / 11"
proof -
  have h: "0 < coolingCOP initialInputs" by (simp add: initial_facts)
  from value_conserved [OF h, of noHost noData] h show ?thesis
    by (simp add: initial_modelA initial_modelB initial_modelC)
qed

lemma paybackYears_quotient:
  assumes "m = modelA (ownershipComparison h od inp)
           \<or> m = modelB (ownershipComparison h od inp)
           \<or> m = modelC (ownershipComparison h od inp)"
  shows "paybackYears m = jsdiv (ownership.totalCapex m) (annualRevenue m - ownership.annualOpex m)"
    and "0 < annualRevenue m - ownership.annualOpex m \<Longrightarrow>
           paybackYears m =
             Num (ownership.totalCapex m / (annualRevenue m - ownership.annualOpex m))"
  using assms
  by (auto simp add: modelA_fields modelB_fields modelC_fields jsdiv_def)

lemma loss_savings: "savingsPerMW lossInputs = 0"
  by (simp add: savingsPerMW_def scenario_defs)

text \<open>
  Claim C1. For every ownership model and all inputs, the reported payback period is
  to be the undefined sentinel, the dash, whenever annual revenue minus annual opex is
  not positive, never a negative or an infinite number; and it is capex divided by that
  difference when the difference is positive. The three ownership tiles divide without
  a guard (\<open>paybackYears_quotient\<close>), where the savings tiles of the same page show the
  dash. In the losing scenario the savings tile shows the dash; model A's revenue minus
  opex is -2625000 and its tile shows -524/105, about -5.0 years; model B's revenue
  minus opex is 0 and its tile shows an infinity.
\<close>

theorem payback_unguarded_at_loss:
  "savingsPaybackTile lossInputs = Dash
   \<and> annualRevenue (modelA (ownershipComparison noHost noData lossInputs))
     - ownership.annualOpex (modelA (ownershipComparison noHost noData lossInputs)) = - 2625000
   \<and> ownershipPaybackTile (modelA (ownershipComparison noHost noData lossInputs))
       = Yrs (Num (- (524 / 105)))
   \<and> annualRevenue (modelB (ownershipComparison noHost noData lossInputs))
     - ownership.annualOpex (modelB (ownershipComparison noHost noData lossInputs)) = 0
   \<and> ownershipPaybackTile (modelB (ownershipComparison noHost noData lossInputs))
       = Yrs Infinite"
proof -
  have tile: "savingsPaybackTile lossInputs = Dash"
    by (simp add: savingsPaybackTile_def loss_savings)
  have a: "annualRevenue (modelA (ownershipComparison noHost noData lossInputs))
     - ownership.annualOpex (modelA (ownershipComparison noHost noData lossInputs)) = - 2625000"
    by (simp add: loss_modelA)
  have pa: "paybackYears (modelA (ownershipComparison noHost noData lossInputs))
              = Num (- (524 / 105))"
    by (simp add: modelA_fields scenario_defs jsdiv_def)
  have b: "annualRevenue (modelB (ownershipComparison noHost noData lossInputs))
     - ownership.annualOpex (modelB (ownershipComparison noHost noData lossInputs)) = 0"
    by (simp add: loss_modelB)
  have pb: "paybackYears (modelB (ownershipComparison noHost noData lossInputs)) = Infinite"
    by (simp add: modelB_fields scenario_defs jsdiv_def)
  from tile a pa b pb show ?thesis by (simp add: ownershipPaybackTile_def)
qed

subsection \<open>Piping cost\<close>

lemma offtakeCosts_fields:
  "offtakeCosts_out.totalCapex (offtakeCosts h od inp) =
     (200000 * (1 - subsidyOf h (findRegionRow h (raw_rows od) (country inp)))
        + distanceCostPerMWperKm od * intakeDistanceKm inp) * recoverableHeatMW (core inp)"
  "offtakeCosts_out.annualOpex (offtakeCosts h od inp) =
     0.03 * offtakeCosts_out.totalCapex (offtakeCosts h od inp)"
  "sourceRow (offtakeCosts h od inp) = findRegionRow h (raw_rows od) (country inp)"
  by (simp_all add: offtakeCosts_def Let_def)

lemma rowLoc_blank: "\<not> truthy (EMPTY b) \<Longrightarrow> rowLoc h b = []"
  by (simp add: rowLoc_def toLowerCase_def)

text \<open>A row with no location, placed first, is the row of every region.\<close>

lemma findRegionRow_blank_first:
  "\<not> truthy (EMPTY b) \<Longrightarrow> findRegionRow h (b # rows) region = Some b"
  by (simp add: findRegionRow_def rowLoc_blank includesStr_def Let_def)

lemma blank_first_lookups:
  "findRegionRowInfo noHost (raw_rows blankFirstData) ''Germany'' = Some germanyRow"
  "findRegionRowInfo noHost (raw_rows blankFirstData) ''Norway'' = Some europeRow"
  by code_simp+

lemma blank_first_facts:
  "raw_rows blankFirstData = blankRow # [germanyRow, europeRow]"
  "\<not> truthy (EMPTY blankRow)"
  "subsidyOf noHost (Some blankRow) = 0"
  "subsidyOf noHost (Some germanyRow) = 0.3"
  "distanceCostPerMWperKm blankFirstData = 10000"
  "country germanyInputs = ''Germany''"
  "intakeDistanceKm germanyInputs = 0.5"
  "recoverableHeatMW (core germanyInputs) = 20"
  by (simp_all add: blankFirstData_def blankRow_def germanyRow_def subsidyOf_def
        distanceCostPerMWperKm_def germanyInputs_def initialInputs_def core_fields clamp_def)

text \<open>
  Claim C8. The piping capex is
  \<open>(baseCapexPerMW * (1 - subsidy) + costPerKm * distanceKm) * recoverableHeatMW\<close> and
  the piping opex is 0.03 times the capex, where the subsidy is that of the region's
  row, found without regard to case, or that of the European average row when the
  region has no row, or 0 when no row matches at all. The arithmetic of
  \<open>offtakeCosts\<close> is this one (\<open>offtakeCosts_fields\<close>); its lookup is not. Its first loop
  also takes a row whose location is contained in the region, and the empty location of
  a row without one is contained in every region (\<open>findRegionRow_blank_first\<close>). With
  such a row first in the table, the region Germany gets that row and the subsidy 0,
  where the lookup of \<open>offtakeRegionInfo\<close> finds the row of Germany, whose subsidy is
  0.3: the capex is 4100000 instead of 2900000. The region Norway, which has no row,
  gets that row too and not the European average.
\<close>

theorem piping_lookup_blank_row:
  "country germanyInputs = ''Germany''
   \<and> findRegionRow noHost (raw_rows blankFirstData) ''Germany'' = Some blankRow
   \<and> findRegionRowInfo noHost (raw_rows blankFirstData) ''Germany'' = Some germanyRow
   \<and> sourceRow (offtakeCosts noHost blankFirstData germanyInputs) = Some blankRow
   \<and> subsidyOf noHost (Some blankRow) = 0
   \<and> subsidyOf noHost (Some germanyRow) = 0.3
   \<and> offtakeCosts_out.totalCapex (offtakeCosts noHost blankFirstData germanyInputs) = 4100000
   \<and> (200000 * (1 - subsidyOf noHost (Some germanyRow))
        + distanceCostPerMWperKm blankFirstData * intakeDistanceKm germanyInputs)
       * recoverableHeatMW (core germanyInputs) = 2900000
   \<and> findRegionRow noHost (raw_rows blankFirstData) ''Norway'' = Some blankRow
   \<and> findRegionRowInfo noHost (raw_rows blankFirstData) ''Norway'' = Some europeRow"
proof -
  have look: "findRegionRow noHost (raw_rows blankFirstData) region = Some blankRow" for region
    unfolding blank_first_facts(1)
    by (rule findRegionRow_blank_first) (rule blank_first_facts(2))
  have src: "sourceRow (offtakeCosts noHost blankFirstData germanyInputs) = Some blankRow"
    by (simp add: offtakeCosts_fields look)
  have capex: "offtakeCosts_out.totalCapex (offtakeCosts noHost blankFirstData germanyInputs)
                 = 4100000"
    by (simp add: offtakeCosts_fields look blank_first_facts(3-8))
  have other: "(200000 * (1 - subsidyOf noHost (Some germanyRow))
        + distanceCostPerMWperKm blankFirstData * intakeDistanceKm germanyInputs)
       * recoverableHeatMW (core germanyInputs) = 2900000"
    by (simp add: blank_first_facts(3-8))
  from look [of "''Germany''"] look [of "''Norway''"] src capex other
    blank_first_lookups blank_first_facts(3,4,6)
  show ?thesis by blast
qed

subsection \<open>CO2 comparison\<close>

lemma core_offtake: "core (inp\<lparr> offtake := k \<rparr>) = core inp"
  by (simp add: core_def dcSupplyTempC_def)

lemma perf_offtake: "perf (inp\<lparr> offtake := k \<rparr>) = perf inp"
  by (simp add: perf_def)

lemma phx_offtake: "phxM3PerPersonYear (inp\<lparr> offtake := k \<rparr>) = phxM3PerPersonYear inp"
  by (simp add: phxM3PerPersonYear_def)

lemma outputs_offtake: "outputs (inp\<lparr> offtake := k \<rparr>) = outputs inp"
  unfolding outputs_def core_offtake perf_offtake phx_offtake by simp

lemmas co2_ranges =
  DAC_CO2_KT_RANGE_def FO_CO2_KT_RANGE_def FNB_CO2_KT_RANGE_def AWH_CO2_KT_RANGE_def
  GREENHOUSE_CO2_KT_PER_MWYR_RANGE_def DISTRICT_HEAT_CO2_KT_RANGE_def

text \<open>
  Claim C2, as amended. The comparator table \<open>co2Bars\<close> has one entry
  \<open>{label, min, best, max}\<close> for each of six offtake families (DAC, FO water
  treatment, food and beverage, atmospheric water, greenhouses, district heating), and
  none for hot water. The \<open>best\<close> of every entry is \<open>(min + max) / 2\<close>. The \<open>min\<close> and
  \<open>max\<close> of the five entries after that of DAC are the reference ranges per MW year
  themselves, not scaled by \<open>recoverableHeatMW\<close>. The contents of the table depend on
  no input, so not on the selected offtake. The values scaled by \<open>recoverableHeatMW\<close>
  are those of \<open>potentialCO2\<close>, which is for the selected offtake alone: the range times
  \<open>recoverableHeatMW\<close> for five offtakes, the single value \<open>dacTco2PerYear\<close> for DAC,
  and \<^verbatim>\<open>null\<close> for hot water.
\<close>

theorem co2Bars_table:
  "map label (co2Bars inp) =
     [''Direct Air Capture (DAC)'', ''FO Waste Water Treatment'', ''Food & Beverage (EU)'',
      ''Atmospheric Water Capture'', ''Greenhouses & Agriculture'', ''District Heating (proxy)'']
   \<and> map (\<lambda>e. (bar_min e, bar_max e)) (tl (co2Bars inp)) =
     [(0.5, 1.5), (0.3, 0.8), (0.1, 0.3), (0.2, 0.6), (0.1, 0.5)]
   \<and> map best (co2Bars inp) = map (\<lambda>e. (bar_min e + bar_max e) / 2) (co2Bars inp)
   \<and> co2Bars inp' = co2Bars inp
   \<and> potentialCO2 (inp\<lparr> offtake := dac \<rparr>) = Some (KindDac (dacTco2PerYear (outputs inp)))
   \<and> potentialCO2 (inp\<lparr> offtake := waterTreatmentFO \<rparr>) =
       Some (KindRange (0.5 * recoverableHeatMW (core inp))
                       (((0.5 + 1.5) / 2) * recoverableHeatMW (core inp))
                       (1.5 * recoverableHeatMW (core inp)))
   \<and> potentialCO2 (inp\<lparr> offtake := foodBrewery \<rparr>) =
       Some (KindRange (0.3 * recoverableHeatMW (core inp))
                       (((0.3 + 0.8) / 2) * recoverableHeatMW (core inp))
                       (0.8 * recoverableHeatMW (core inp)))
   \<and> potentialCO2 (inp\<lparr> offtake := atmosphericWater \<rparr>) =
       Some (KindRange (0.1 * recoverableHeatMW (core inp))
                       (((0.1 + 0.3) / 2) * recoverableHeatMW (core inp))
                       (0.3 * recoverableHeatMW (core inp)))
   \<and> potentialCO2 (inp\<lparr> offtake := greenhouses \<rparr>) =
       Some (KindRange (0.2 * recoverableHeatMW (core inp))
                       (((0.2 + 0.6) / 2) * recoverableHeatMW (core inp))
                       (0.6 * recoverableHeatMW (core inp)))
   \<and> potentialCO2 (inp\<lparr> offtake := districtHeat \<rparr>) =
       Some (KindRange (0.1 * recoverableHeatMW (core inp))
                       (((0.1 + 0.5) / 2) * recoverableHeatMW (core inp))
                       (0.5 * recoverableHeatMW (core inp)))
   \<and> potentialCO2 (inp\<lparr> offtake := hotWater \<rparr>) = None"
proof -
  have bars: "map label (co2Bars inp) =
     [''Direct Air Capture (DAC)'', ''FO Waste Water Treatment'', ''Food & Beverage (EU)'',
      ''Atmospheric Water Capture'', ''Greenhouses & Agriculture'', ''District Heating (proxy)'']"
    "map (\<lambda>e. (bar_min e, bar_max e)) (tl (co2Bars inp)) =
     [(0.5, 1.5), (0.3, 0.8), (0.1, 0.3), (0.2, 0.6), (0.1, 0.5)]"
    "map best (co2Bars inp) = map (\<lambda>e. (bar_min e + bar_max e) / 2) (co2Bars inp)"
    "co2Bars inp' = co2Bars inp"
    by (simp_all add: co2Bars_def mk_def co2_ranges)
  have pot:
    "potentialCO2 (inp\<lparr> offtake := dac \<rparr>) = Some (KindDac (dacTco2PerYear (outputs inp)))"
    "potentialCO2 (inp\<lparr> offtake := waterTreatmentFO \<rparr>) =
       Some (KindRange (0.5 * recoverableHeatMW (core inp))
                       (((0.5 + 1.5) / 2) * recoverableHeatMW (core inp))
                       (1.5 * recoverableHeatMW (core inp)))"
    "potentialCO2 (inp\<lparr> offtake := foodBrewery \<rparr>) =
       Some (KindRange (0.3 * recoverableHeatMW (core inp))
                       (((0.3 + 0.8) / 2) * recoverableHeatMW (core inp))
                       (0.8 * recoverableHeatMW (core inp)))"
    "potentialCO2 (inp\<lparr> offtake := atmosphericWater \<rparr>) =
       Some (KindRange (0.1 * recoverableHeatMW (core inp))
                       (((0.1 + 0.3) / 2) * recoverableHeatMW (core inp))
                       (0.3 * recoverableHeatMW (core inp)))"
    "potentialCO2 (inp\<lparr> offtake := greenhouses \<rparr>) =
       Some (KindRange (0.2 * recoverableHeatMW (core inp))
                       (((0.2 + 0.6) / 2) * recoverableHeatMW (core inp))
                       (0.6 * recoverableHeatMW (core inp)))"
    "potentialCO2 (inp\<lparr> offtake := districtHeat \<rparr>) =
       Some (KindRange (0.1 * recoverableHeatMW (core inp))
                       (((0.1 + 0.5) / 2) * recoverableHeatMW (core inp))
                       (0.5 * recoverableHeatMW (core inp)))"
    "potentialCO2 (inp\<lparr> offtake := hotWater \<rparr>) = None"
    by (simp_all add: potentialCO2_def rangeTimes_def core_offtake outputs_offtake
          co2_ranges Let_def)
  from bars pot show ?thesis by blast
qed

text \<open>
  Claim C2 as it is written fails in the initial state, where \<open>recoverableHeatMW\<close> is
  20: the entry of FO water treatment has the minimum 0.5, not 0.5 times 20, and the
  table has six entries for seven offtakes.
\<close>

theorem co2Bars_unscaled_counterexample:
  "recoverableHeatMW (core initialInputs) = 20
   \<and> label (co2Bars initialInputs ! 1) = ''FO Waste Water Treatment''
   \<and> bar_min (co2Bars initialInputs ! 1) = 0.5
   \<and> range_min FO_CO2_KT_RANGE * recoverableHeatMW (core initialInputs) = 10
   \<and> bar_min (co2Bars initialInputs ! 1)
        \<noteq> range_min FO_CO2_KT_RANGE * recoverableHeatMW (core initialInputs)
   \<and> length (co2Bars initialInputs) = 6"
  by (simp add: co2Bars_def mk_def co2_ranges core_def clamp_def initialInputs_def Let_def)

end
